theory Spec2Isabelle
  imports Complex_Main
begin

section \<open>The surface-tracking and placement loop of src/main.ts\<close>

text \<open>
  The theory embeds the three event handlers that \<open>activateXR\<close> registers in
  \<open>src/main.ts\<close> (the \<open>select\<close> listener, the frame callback \<open>onXRFrame\<close>, the
  \<open>end\<close> listener) and the two completion callbacks of the glTF loads, as functions on
  an explicit state.

  Numbers of the program are IEEE doubles. The handlers never compute with a coordinate:
  they store and copy them, and the only literals are the scale \<open>0.2\<close> and the position
  of a light. Coordinates are therefore modelled as reals. The counter \<open>objectsPlaced\<close>
  starts at 0 and is only ever incremented by one, which a double does exactly for every
  count below \<open>2 ^ 53\<close>; it is modelled as a natural number.
\<close>

subsection \<open>Values of three.js and of the WebXR device API\<close>

datatype vector3 = Vector3 real real real

datatype quaternion = Quaternion real real real real

text \<open>A \<open>DOMPointReadOnly\<close>: the fields \<open>x\<close>, \<open>y\<close>, \<open>z\<close>, \<open>w\<close>.\<close>

datatype dom_point = DOMPoint real real real real

text \<open>
  An \<open>XRRigidTransform\<close>, as a hit test reports it: \<open>transform.position\<close> and
  \<open>transform.orientation\<close>.
\<close>

record rigid_transform =
  xr_position :: dom_point
  xr_orientation :: dom_point

text \<open>
  An \<open>XRHitTestResult\<close>: all the program asks of it is \<open>getPose(referenceSpace)\<close>,
  which is a pose or null.
\<close>

record hit_result =
  getPose :: "rigid_transform option"

record xrview =
  view_matrix :: "real list"
  projectionMatrix :: "real list"

record viewport =
  width :: int
  height :: int

text \<open>
  The base layer of the session's render state: all the program asks of it is
  \<open>getViewport(view)\<close> for the first view, which is a viewport or null.
\<close>

record base_layer =
  getViewport :: "viewport option"

text \<open>
  What the platform answers during one frame callback: \<open>frame.getViewerPose\<close> (null, or
  a pose of which the program reads \<open>views\<close>), \<open>session.renderState.baseLayer\<close> and
  \<open>frame.getHitTestResults(hitTestSource)\<close>.
\<close>

record xrframe =
  viewerPose :: "xrview list option"
  baseLayer :: "base_layer option"
  hitTestResults :: "hit_result list"

text \<open>
  What a scene object is made of: a light that \<open>activateXR\<close> creates, or the node
  tree of a loaded glTF scene, which the program never looks into (the number stands for
  it).
\<close>

datatype node = DirectionalLight | AmbientLight | GltfScene nat

text \<open>
  A \<open>THREE.Object3D\<close>. Each object owns its \<open>position\<close>, \<open>quaternion\<close> and
  \<open>scale\<close> (three.js makes these properties read-only: they are written through
  \<open>set\<close> and \<open>copy\<close>, which copy numbers), so they are fields by value, and objects
  are shared by reference through the heap below. The matrices \<open>matrix\<close> and
  \<open>matrixWorld\<close>, which \<open>updateMatrixWorld\<close> recomputes from these fields, are
  not modelled.
\<close>

record object3d =
  visible :: bool
  position :: vector3
  quaternion :: quaternion
  scale :: vector3
  node :: node

datatype error = TypeError

text \<open>
  The lines written by \<open>console.log\<close>. The line of a placement prints the reticle's
  position (two decimals of each coordinate) and the counter: the entry holds the position
  and the counter.
\<close>

datatype log_entry =
    LogSessionStarted
  | LogHitTestSourceCreated
  | LogReticleLoaded
  | LogModelLoaded
  | LogObjectPlaced vector3 nat
  | LogSurfaceDetected
  | LogSurfaceLost
  | LogSessionEnded

subsection \<open>The state the handlers close over\<close>

text \<open>
  \<open>heap\<close> holds every \<open>Object3D\<close> the program has a reference to; a reference is an
  index into it and a new object takes the next index. \<open>scene\<close> is
  \<open>scene.children\<close>; \<open>reticle\<close> and \<open>model\<close> are the two variables of that
  name (null until their load completes); \<open>hitTestSource\<close> tells whether the variable
  of that name is defined. \<open>message\<close> is the text of the element with id \<open>message\<close>
  and \<open>button_disabled\<close> the flag of the start button, each \<open>None\<close> when the page
  has no such element.
\<close>

record state =
  heap :: "object3d list"
  scene :: "nat list"
  reticle :: "nat option"
  model :: "nat option"
  objectsPlaced :: nat
  hitTestSource :: bool
  camera_matrix :: "real list"
  camera_projectionMatrix :: "real list"
  renderer_size :: "int \<times> int"
  console :: "log_entry list"
  message :: "string option"
  button_disabled :: "bool option"

definition setMessage :: "string \<Rightarrow> state \<Rightarrow> state" where
  "setMessage text s =
     (case message s of None \<Rightarrow> s | Some _ \<Rightarrow> s\<lparr>message := Some text\<rparr>)"

definition enableButton :: "state \<Rightarrow> state" where
  "enableButton s =
     (case button_disabled s of None \<Rightarrow> s | Some _ \<Rightarrow> s\<lparr>button_disabled := Some False\<rparr>)"

text \<open>
  The state when \<open>activateXR\<close> has registered its handlers (lines 44 to 192 of
  \<open>src/main.ts\<close>, every request granted): the scene holds the two lights, both loads
  are pending, nothing is placed. The camera is a new \<open>PerspectiveCamera\<close> (its
  matrix is the identity), and the renderer has the size of the new canvas, 300 by 150.
  The parameters are whether the session offers \<open>requestHitTestSource\<close>, the
  page's message text and button flag before the click, and the projection matrix that
  three.js computes for a new camera.
\<close>

definition init_state ::
  "bool \<Rightarrow> string option \<Rightarrow> bool option \<Rightarrow> real list \<Rightarrow> state" where
  "init_state hts msg btn projection =
     \<lparr> heap =
         [\<lparr> visible = True, position = Vector3 10 15 10,
            quaternion = Quaternion 0 0 0 1, scale = Vector3 1 1 1,
            node = DirectionalLight \<rparr>,
          \<lparr> visible = True, position = Vector3 0 0 0,
            quaternion = Quaternion 0 0 0 1, scale = Vector3 1 1 1,
            node = AmbientLight \<rparr>],
       scene = [0, 1],
       reticle = None,
       model = None,
       objectsPlaced = 0,
       hitTestSource = hts,
       camera_matrix = [1, 0, 0, 0, 0, 1, 0, 0, 0, 0, 1, 0, 0, 0, 0, 1],
       camera_projectionMatrix = projection,
       renderer_size = (300, 150),
       console =
         LogSessionStarted # (if hts then [LogHitTestSourceCreated] else []),
       message =
         (case msg of None \<Rightarrow> None
          | Some _ \<Rightarrow>
              Some ''AR active. Point at a surface and tap to place the ammo crate.''),
       button_disabled = (case btn of None \<Rightarrow> None | Some _ \<Rightarrow> Some True) \<rparr>"

subsection \<open>The completion callbacks of the two loads\<close>

text \<open>
  Lines 101 to 106: the loaded scene \<open>gltf.scene\<close> becomes the reticle, hidden, and a
  child of the scene.
\<close>

definition reticleLoaded :: "object3d \<Rightarrow> state \<Rightarrow> state" where
  "reticleLoaded gltf_scene s =
     s\<lparr> heap := heap s @ [gltf_scene\<lparr>visible := False\<rparr>],
        reticle := Some (length (heap s)),
        scene := scene s @ [length (heap s)],
        console := console s @ [LogReticleLoaded] \<rparr>"

text \<open>
  Lines 111 to 115: the loaded scene becomes the model, scaled to a fifth; it is not
  added to the scene.
\<close>

definition modelLoaded :: "object3d \<Rightarrow> state \<Rightarrow> state" where
  "modelLoaded gltf_scene s =
     s\<lparr> heap := heap s @ [gltf_scene\<lparr>scale := Vector3 0.2 0.2 0.2\<rparr>],
        model := Some (length (heap s)),
        console := console s @ [LogModelLoaded] \<rparr>"

subsection \<open>The select listener (lines 119 to 129)\<close>

text \<open>
  \<open>model.clone()\<close> is a new object with the model's fields;
  \<open>clone.position.copy(reticle.position)\<close> overwrites the coordinates of its position
  with the reticle's.
\<close>

definition onSelect :: "state \<Rightarrow> state" where
  "onSelect s =
     (case model s of
        None \<Rightarrow> s
      | Some m \<Rightarrow>
          (case reticle s of
             None \<Rightarrow> s
           | Some r \<Rightarrow>
               if visible (heap s ! r) then
                 let clone = (heap s ! m)\<lparr>position := position (heap s ! r)\<rparr>
                 in s\<lparr> heap := heap s @ [clone],
                       scene := scene s @ [length (heap s)],
                       objectsPlaced := objectsPlaced s + 1,
                       console := console s @
                         [LogObjectPlaced (position (heap s ! r)) (objectsPlaced s + 1)] \<rparr>
               else s))"

subsection \<open>The frame callback (lines 131 to 181)\<close>

fun xyz :: "dom_point \<Rightarrow> vector3" where
  "xyz (DOMPoint x y z w) = Vector3 x y z"

text \<open>
  Lines 149 to 173. A hit result whose pose does not resolve, and a missing reticle, fall
  through both branches.
\<close>

definition processHitTest :: "xrframe \<Rightarrow> state \<Rightarrow> state" where
  "processHitTest frame s =
     (if hitTestSource s then
        (case hitTestResults frame of
           hit # _ \<Rightarrow>
             (case reticle s of
                Some r \<Rightarrow>
                  (case getPose hit of
                     Some hitPose \<Rightarrow>
                       s\<lparr> console :=
                             (if \<not> visible (heap s ! r)
                              then console s @ [LogSurfaceDetected] else console s),
                           heap := (heap s)
                             [r := (heap s ! r)
                                \<lparr>visible := True,
                                 position := xyz (xr_position hitPose)\<rparr>] \<rparr>
                   | None \<Rightarrow> s)
              | None \<Rightarrow> s)
         | [] \<Rightarrow>
             (case reticle s of
                Some r \<Rightarrow>
                  s\<lparr> console :=
                        (if visible (heap s ! r)
                         then console s @ [LogSurfaceLost] else console s),
                      heap := (heap s)[r := (heap s ! r)\<lparr>visible := False\<rparr>] \<rparr>
              | None \<Rightarrow> s))
      else s)"

text \<open>
  The whole callback. Reading \<open>framebuffer\<close> of a null base layer (line 136) throws a
  \<open>TypeError\<close>, and so does \<open>getViewport\<close> of the undefined first element of an
  empty \<open>views\<close> (line 144); both happen before any field of the state is written. The
  re-registration of the callback and the drawing itself are effects on the platform and
  are not part of the state.
\<close>

definition onXRFrame :: "xrframe \<Rightarrow> state \<Rightarrow> error + state" where
  "onXRFrame frame s =
     (case baseLayer frame of
        None \<Rightarrow> Inl TypeError
      | Some layer \<Rightarrow>
          (case viewerPose frame of
             None \<Rightarrow> Inr s
           | Some views \<Rightarrow>
               (case views of
                  [] \<Rightarrow> Inl TypeError
                | view # _ \<Rightarrow>
                    (case getViewport layer of
                       None \<Rightarrow> Inr s
                     | Some vp \<Rightarrow>
                         Inr ((processHitTest frame
                                 (s\<lparr>renderer_size := (width vp, height vp)\<rparr>))
                               \<lparr> camera_matrix := view_matrix view,
                                 camera_projectionMatrix := projectionMatrix view \<rparr>)))))"

subsection \<open>The end listener (lines 183 to 187)\<close>

definition onEnd :: "state \<Rightarrow> state" where
  "onEnd s =
     enableButton
       (setMessage ''AR session ended. You can start again.''
          (s\<lparr>console := console s @ [LogSessionEnded]\<rparr>))"

subsection \<open>The event loop\<close>

text \<open>
  The platform runs one callback at a time. A callback that throws leaves the state as it
  was when it threw, which for \<open>onXRFrame\<close> is the state before the call.
\<close>

definition frameCallback :: "xrframe \<Rightarrow> state \<Rightarrow> state" where
  "frameCallback frame s = (case onXRFrame frame s of Inl _ \<Rightarrow> s | Inr s' \<Rightarrow> s')"

datatype event =
    Frame xrframe
  | Select
  | ReticleLoad object3d
  | ModelLoad object3d
  | SessionEnd

fun step :: "state \<Rightarrow> event \<Rightarrow> state" where
  "step s (Frame frame) = frameCallback frame s"
| "step s Select = onSelect s"
| "step s (ReticleLoad gltf_scene) = reticleLoaded gltf_scene s"
| "step s (ModelLoad gltf_scene) = modelLoaded gltf_scene s"
| "step s SessionEnd = onEnd s"

definition run :: "state \<Rightarrow> event list \<Rightarrow> state" where
  "run s evs = foldl step s evs"

section \<open>Vocabulary of the properties\<close>

text \<open>
  \<open>Marker.visible\<close>, as the select listener reads it (\<open>reticle && reticle.visible\<close>):
  a reticle that is not loaded yet is not visible.
\<close>

definition marker_visible :: "state \<Rightarrow> bool" where
  "marker_visible s = (case reticle s of None \<Rightarrow> False | Some r \<Rightarrow> visible (heap s ! r))"

text \<open>
  References point into the heap, and the reticle and the model are two objects. This
  holds of \<open>init_state\<close> and every handler keeps it (\<open>valid_refs_init\<close>,
  \<open>valid_refs_run\<close> below).
\<close>

definition valid_refs :: "state \<Rightarrow> bool" where
  "valid_refs s \<longleftrightarrow>
     (case reticle s of None \<Rightarrow> True
      | Some r \<Rightarrow> r < length (heap s) \<and> model s \<noteq> Some r) \<and>
     (case model s of None \<Rightarrow> True | Some m \<Rightarrow> m < length (heap s)) \<and>
     list_all (\<lambda>i. i < length (heap s)) (scene s)"

text \<open>
  What three's \<open>GLTFLoader\<close> hands a completion callback as \<open>gltf.scene\<close>: a new
  \<open>Group\<close> that holds the nodes of the file. Whatever the file, the root itself has
  the transform of a new \<open>Object3D\<close>.
\<close>

definition fresh_group :: "object3d \<Rightarrow> bool" where
  "fresh_group g \<longleftrightarrow>
     visible g \<and> position g = Vector3 0 0 0 \<and> quaternion g = Quaternion 0 0 0 1 \<and>
     scale g = Vector3 1 1 1"

text \<open>
  The events a session can receive: any frame, any select or end signal, and loads that
  complete with a scene of the loader.
\<close>

fun deliverable :: "event \<Rightarrow> bool" where
  "deliverable (ReticleLoad g) = fresh_group g"
| "deliverable (ModelLoad g) = fresh_group g"
| "deliverable _ = True"

text \<open>
  The reticle and the model have the orientation they were loaded with, that of a new
  object: no handler writes a quaternion. This holds of \<open>init_state\<close> and every
  deliverable event keeps it (\<open>identity_roots_init\<close>, \<open>identity_roots_run\<close>
  below).
\<close>

definition identity_roots :: "state \<Rightarrow> bool" where
  "identity_roots s \<longleftrightarrow>
     (case reticle s of None \<Rightarrow> True
      | Some r \<Rightarrow> quaternion (heap s ! r) = Quaternion 0 0 0 1) \<and>
     (case model s of None \<Rightarrow> True
      | Some m \<Rightarrow> quaternion (heap s ! m) = Quaternion 0 0 0 1)"

text \<open>
  A frame on which \<open>onXRFrame\<close> gets as far as line 146: there is a base layer, a
  viewer pose with a first view, and a viewport for it.
\<close>

definition tracked :: "xrframe \<Rightarrow> bool" where
  "tracked frame =
     (case baseLayer frame of
        None \<Rightarrow> False
      | Some layer \<Rightarrow>
          (case viewerPose frame of
             None \<Rightarrow> False
           | Some views \<Rightarrow> views \<noteq> [] \<and> getViewport layer \<noteq> None))"

text \<open>
  The surface estimate that a frame's hit-test query gives the program (lines 150 to
  153): the pose of the first result, when there is a result and its pose resolves.
\<close>

definition surface_estimate :: "xrframe \<Rightarrow> rigid_transform option" where
  "surface_estimate frame =
     (case hitTestResults frame of [] \<Rightarrow> None | hit # _ \<Rightarrow> getPose hit)"

text \<open>The log lines that belong to a change of visibility.\<close>

definition transition_events :: "bool \<Rightarrow> bool \<Rightarrow> log_entry list" where
  "transition_events before after =
     (if \<not> before \<and> after then [LogSurfaceDetected]
      else if before \<and> \<not> after then [LogSurfaceLost]
      else [])"

text \<open>The rigid pose (position and orientation) of a scene object and of a transform.\<close>

definition object_pose :: "object3d \<Rightarrow> vector3 \<times> quaternion" where
  "object_pose obj = (position obj, quaternion obj)"

fun as_quaternion :: "dom_point \<Rightarrow> quaternion" where
  "as_quaternion (DOMPoint x y z w) = Quaternion x y z w"

definition transform_pose :: "rigid_transform \<Rightarrow> vector3 \<times> quaternion" where
  "transform_pose T = (xyz (xr_position T), as_quaternion (xr_orientation T))"

text \<open>
  The part of the state that tracking and placement are about: the objects, the scene's
  children, the two references and the counter.
\<close>

definition core ::
  "state \<Rightarrow> object3d list \<times> nat list \<times> nat option \<times> nat option \<times> nat" where
  "core s = (heap s, scene s, reticle s, model s, objectsPlaced s)"

text \<open>
  The number of select signals in a sequence of events that arrive while the model is
  loaded and the marker is visible.
\<close>

fun valid_selects :: "state \<Rightarrow> event list \<Rightarrow> nat" where
  "valid_selects s [] = 0"
| "valid_selects s (e # es) =
     (if e = Select \<and> model s \<noteq> None \<and> marker_visible s then 1 else 0)
       + valid_selects (step s e) es"

fun frame_or_select :: "event \<Rightarrow> bool" where
  "frame_or_select (Frame _) = True"
| "frame_or_select Select = True"
| "frame_or_select _ = False"

subsection \<open>Concrete sessions\<close>

text \<open>
  Two loaded scenes, a frame that is tracked and carries the given hit results, two
  poses, one on the floor and one on a wall (turned about the x axis), and a projection
  matrix.
\<close>

definition reticle_asset :: object3d where
  "reticle_asset =
     \<lparr> visible = True, position = Vector3 0 0 0, quaternion = Quaternion 0 0 0 1,
       scale = Vector3 1 1 1, node = GltfScene 0 \<rparr>"

definition crate_asset :: object3d where
  "crate_asset =
     \<lparr> visible = True, position = Vector3 0 0 0, quaternion = Quaternion 0 0 0 1,
       scale = Vector3 1 1 1, node = GltfScene 1 \<rparr>"

definition frame_with :: "hit_result list \<Rightarrow> xrframe" where
  "frame_with hits =
     \<lparr> viewerPose =
         Some [\<lparr> view_matrix = [1, 0, 0, 0, 0, 1, 0, 0, 0, 0, 1, 0, 0, 0, 0, 1],
                 projectionMatrix = [1, 0, 0, 0, 0, 1, 0, 0, 0, 0, 1, 0, 0, 0, 0, 1] \<rparr>],
       baseLayer = Some \<lparr> getViewport = Some \<lparr> width = 1080, height = 1920 \<rparr> \<rparr>,
       hitTestResults = hits \<rparr>"

definition floor_pose :: rigid_transform where
  "floor_pose = \<lparr> xr_position = DOMPoint 1 0 (-2) 1, xr_orientation = DOMPoint 0 0 0 1 \<rparr>"

definition wall_pose :: rigid_transform where
  "wall_pose = \<lparr> xr_position = DOMPoint 0 1 (-3) 1, xr_orientation = DOMPoint 1 0 0 0 \<rparr>"

definition projection0 :: "real list" where
  "projection0 = [2, 0, 0, 0, 0, 2, 0, 0, 0, 0, -1, -1, 0, 0, -0.2, 0]"

definition session0 :: state where
  "session0 = init_state True (Some []) (Some False) projection0"

text \<open>The reticle is loaded.\<close>

definition session_reticle :: state where
  "session_reticle = run session0 [ReticleLoad reticle_asset]"

text \<open>Reticle and crate are loaded and the reticle lies on the floor.\<close>

definition session_floor :: state where
  "session_floor =
     run session0
       [ReticleLoad reticle_asset, ModelLoad crate_asset,
        Frame (frame_with [\<lparr>getPose = Some floor_pose\<rparr>])]"

lemmas scenario_defs =
  run_def frameCallback_def onXRFrame_def processHitTest_def onSelect_def onEnd_def
  reticleLoaded_def modelLoaded_def init_state_def setMessage_def enableButton_def
  session0_def session_reticle_def session_floor_def projection0_def
  frame_with_def reticle_asset_def crate_asset_def fresh_group_def
  floor_pose_def wall_pose_def marker_visible_def surface_estimate_def
  object_pose_def transform_pose_def valid_refs_def tracked_def Let_def

section \<open>What each handler leaves alone\<close>

lemma setMessage_fields [simp]:
  "heap (setMessage t s) = heap s" "scene (setMessage t s) = scene s"
  "reticle (setMessage t s) = reticle s" "model (setMessage t s) = model s"
  "objectsPlaced (setMessage t s) = objectsPlaced s"
  "hitTestSource (setMessage t s) = hitTestSource s"
  "console (setMessage t s) = console s"
  by (simp_all add: setMessage_def split: option.splits)

lemma enableButton_fields [simp]:
  "heap (enableButton s) = heap s" "scene (enableButton s) = scene s"
  "reticle (enableButton s) = reticle s" "model (enableButton s) = model s"
  "objectsPlaced (enableButton s) = objectsPlaced s"
  "hitTestSource (enableButton s) = hitTestSource s"
  "console (enableButton s) = console s"
  by (simp_all add: enableButton_def split: option.splits)

lemma onEnd_fields [simp]:
  "heap (onEnd s) = heap s" "scene (onEnd s) = scene s"
  "reticle (onEnd s) = reticle s" "model (onEnd s) = model s"
  "objectsPlaced (onEnd s) = objectsPlaced s"
  "hitTestSource (onEnd s) = hitTestSource s"
  "console (onEnd s) = console s @ [LogSessionEnded]"
  by (simp_all add: onEnd_def)

lemma processHitTest_fields [simp]:
  "scene (processHitTest f s) = scene s"
  "reticle (processHitTest f s) = reticle s" "model (processHitTest f s) = model s"
  "objectsPlaced (processHitTest f s) = objectsPlaced s"
  "hitTestSource (processHitTest f s) = hitTestSource s"
  "length (heap (processHitTest f s)) = length (heap s)"
  by (simp_all add: processHitTest_def split: option.splits list.splits)

lemma processHitTest_other:
  "reticle s \<noteq> Some n \<Longrightarrow> heap (processHitTest f s) ! n = heap s ! n"
  by (auto simp add: processHitTest_def split: option.splits list.splits)

text \<open>
  The frame callback in one equation: on a tracked frame the hit test runs and the camera
  is set, on any other frame (one that throws, too) the state stays.
\<close>

lemma frameCallback_unfold:
  "frameCallback f s =
     (if tracked f then
        (processHitTest f
           (s\<lparr>renderer_size :=
               (width (the (getViewport (the (baseLayer f)))),
                height (the (getViewport (the (baseLayer f)))))\<rparr>))
          \<lparr>camera_matrix := view_matrix (hd (the (viewerPose f))),
           camera_projectionMatrix := projectionMatrix (hd (the (viewerPose f)))\<rparr>
      else s)"
  by (simp add: frameCallback_def onXRFrame_def tracked_def split: option.splits list.splits)

lemma frame_fields [simp]:
  "scene (frameCallback f s) = scene s"
  "reticle (frameCallback f s) = reticle s" "model (frameCallback f s) = model s"
  "objectsPlaced (frameCallback f s) = objectsPlaced s"
  "hitTestSource (frameCallback f s) = hitTestSource s"
  "length (heap (frameCallback f s)) = length (heap s)"
  by (simp_all add: frameCallback_unfold)

lemma frame_other:
  "reticle s \<noteq> Some n \<Longrightarrow> heap (frameCallback f s) ! n = heap s ! n"
  by (simp add: frameCallback_unfold processHitTest_other)

lemma frame_unresolved:
  assumes "hitTestResults frame = hit # rest" "getPose hit = None"
  shows "heap (frameCallback frame s) = heap s \<and> console (frameCallback frame s) = console s"
  using assms
  by (auto simp add: frameCallback_unfold processHitTest_def split: option.splits list.splits)

lemma frame_no_reticle:
  assumes "reticle s = None"
  shows "heap (frameCallback frame s) = heap s \<and> console (frameCallback frame s) = console s"
  using assms
  by (auto simp add: frameCallback_unfold processHitTest_def split: option.splits list.splits)

section \<open>The invariant of the references\<close>

lemma valid_refs_init: "valid_refs (init_state hts msg btn projection)"
  by (simp add: valid_refs_def init_state_def)

lemma valid_refs_step: "valid_refs s \<Longrightarrow> valid_refs (step s e)"
proof (cases e)
  case (Frame f)
  assume "valid_refs s"
  then show ?thesis unfolding Frame
    by (auto simp add: valid_refs_def split: option.splits)
next
  case Select
  assume "valid_refs s"
  then show ?thesis unfolding Select
    by (auto simp add: valid_refs_def onSelect_def Let_def list_all_iff split: option.splits)
next
  case (ReticleLoad g)
  assume "valid_refs s"
  then show ?thesis unfolding ReticleLoad
    by (auto simp add: valid_refs_def reticleLoaded_def list_all_iff split: option.splits)
next
  case (ModelLoad g)
  assume "valid_refs s"
  then show ?thesis unfolding ModelLoad
    by (auto simp add: valid_refs_def modelLoaded_def list_all_iff split: option.splits)
next
  case SessionEnd
  assume "valid_refs s"
  then show ?thesis unfolding SessionEnd
    by (auto simp add: valid_refs_def split: option.splits)
qed

lemma valid_refs_run: "valid_refs s \<Longrightarrow> valid_refs (run s evs)"
  unfolding run_def by (induction evs arbitrary: s) (simp_all add: valid_refs_step)

text \<open>
  An object that is not the reticle is never written again, and never becomes the
  reticle: a later load allocates a new object.
\<close>

lemma untouched_step:
  assumes "valid_refs s" "n < length (heap s)" "reticle s \<noteq> Some n"
  shows "heap (step s e) ! n = heap s ! n \<and> n < length (heap (step s e)) \<and>
         reticle (step s e) \<noteq> Some n"
proof (cases e)
  case (Frame f)
  then show ?thesis using assms by (simp add: frame_other)
next
  case Select
  then show ?thesis using assms
    by (auto simp add: onSelect_def Let_def nth_append split: option.splits)
next
  case (ReticleLoad g)
  then show ?thesis using assms by (auto simp add: reticleLoaded_def nth_append)
next
  case (ModelLoad g)
  then show ?thesis using assms by (auto simp add: modelLoaded_def nth_append)
next
  case SessionEnd
  then show ?thesis using assms by simp
qed

lemma untouched_run:
  assumes "valid_refs s" "n < length (heap s)" "reticle s \<noteq> Some n"
  shows "heap (run s evs) ! n = heap s ! n"
  using assms
proof (induction evs arbitrary: s)
  case Nil
  then show ?case by (simp add: run_def)
next
  case (Cons e evs)
  have "heap (run (step s e) evs) ! n = heap (step s e) ! n"
    using Cons.IH [of "step s e"] untouched_step [OF Cons.prems, of e]
      valid_refs_step [OF Cons.prems(1), of e] by blast
  then show ?case
    using untouched_step [OF Cons.prems, of e] by (simp add: run_def)
qed

section \<open>The frame callback and the marker\<close>

lemma marker_visible_frame:
  assumes "valid_refs s"
  shows "marker_visible (frameCallback frame s) =
     (if tracked frame \<and> hitTestSource s \<and> reticle s \<noteq> None then
        (if hitTestResults frame = [] then False
         else if surface_estimate frame \<noteq> None then True
         else marker_visible s)
      else marker_visible s)"
  using assms
  by (auto simp add: marker_visible_def frameCallback_unfold processHitTest_def
      valid_refs_def surface_estimate_def split: option.splits list.splits)

lemma console_frame:
  assumes "valid_refs s"
  shows "console (frameCallback frame s) =
     console s @ transition_events (marker_visible s) (marker_visible (frameCallback frame s))"
  using assms
  by (auto simp add: marker_visible_def frameCallback_unfold processHitTest_def
      valid_refs_def transition_events_def split: option.splits list.splits)

lemma heap_frame_present:
  assumes "reticle s = Some r" "tracked frame" "hitTestSource s"
    "surface_estimate frame = Some T"
  shows "heap (frameCallback frame s) =
      (heap s)[r := (heap s ! r)\<lparr>visible := True, position := xyz (xr_position T)\<rparr>]"
  using assms
  by (auto simp add: frameCallback_unfold processHitTest_def surface_estimate_def
      split: option.splits list.splits)

section \<open>The select listener and the placed instances\<close>

lemma onSelect_noop:
  "model s = None \<or> \<not> marker_visible s \<Longrightarrow> onSelect s = s"
  by (auto simp add: onSelect_def marker_visible_def split: option.splits)

lemma onSelect_valid:
  assumes "model s = Some m" "reticle s = Some r" "visible (heap s ! r)"
  shows "onSelect s =
     s\<lparr> heap := heap s @ [(heap s ! m)\<lparr>position := position (heap s ! r)\<rparr>],
        scene := scene s @ [length (heap s)],
        objectsPlaced := objectsPlaced s + 1,
        console := console s @
          [LogObjectPlaced (position (heap s ! r)) (objectsPlaced s + 1)] \<rparr>"
  using assms by (simp add: onSelect_def Let_def)

lemma counter_run:
  "objectsPlaced (run s evs) = objectsPlaced s + valid_selects s evs"
proof (induction evs arbitrary: s)
  case Nil
  then show ?case by (simp add: run_def)
next
  case (Cons e evs)
  have one: "objectsPlaced (step s e) =
      objectsPlaced s + (if e = Select \<and> model s \<noteq> None \<and> marker_visible s then 1 else 0)"
    by (cases e)
      (auto simp add: onSelect_def marker_visible_def Let_def reticleLoaded_def
        modelLoaded_def split: option.splits)
  have "objectsPlaced (run (step s e) evs) =
      objectsPlaced (step s e) + valid_selects (step s e) evs"
    by (rule Cons.IH)
  then show ?case using one by (simp add: run_def)
qed

lemma instances_run:
  "list_all frame_or_select evs \<Longrightarrow>
     length (scene (run s evs)) = length (scene s) + valid_selects s evs \<and>
     length (heap (run s evs)) = length (heap s) + valid_selects s evs"
proof (induction evs arbitrary: s)
  case Nil
  then show ?case by (simp add: run_def)
next
  case (Cons e evs)
  have fs: "frame_or_select e" and rest: "list_all frame_or_select evs"
    using Cons.prems by simp_all
  have one: "length (scene (step s e)) =
      length (scene s) + (if e = Select \<and> model s \<noteq> None \<and> marker_visible s then 1 else 0) \<and>
    length (heap (step s e)) =
      length (heap s) + (if e = Select \<and> model s \<noteq> None \<and> marker_visible s then 1 else 0)"
    using fs
    by (cases e)
      (auto simp add: onSelect_def marker_visible_def Let_def split: option.splits)
  show ?case using Cons.IH [OF rest, of "step s e"] one by (simp add: run_def)
qed

lemma two_selects:
  assumes "valid_refs s" "model s = Some m" "reticle s = Some r" "visible (heap s ! r)"
  shows "objectsPlaced (onSelect (onSelect s)) = objectsPlaced s + 2 \<and>
     scene (onSelect (onSelect s)) = scene s @ [length (heap s), Suc (length (heap s))] \<and>
     heap (onSelect (onSelect s)) =
       heap s @ [(heap s ! m)\<lparr>position := position (heap s ! r)\<rparr>,
                 (heap s ! m)\<lparr>position := position (heap s ! r)\<rparr>]"
proof -
  let ?s' = "onSelect s"
  have eq: "?s' =
     s\<lparr> heap := heap s @ [(heap s ! m)\<lparr>position := position (heap s ! r)\<rparr>],
        scene := scene s @ [length (heap s)],
        objectsPlaced := objectsPlaced s + 1,
        console := console s @
          [LogObjectPlaced (position (heap s ! r)) (objectsPlaced s + 1)] \<rparr>"
    using assms(2-4) by (rule onSelect_valid)
  have r_lt: "r < length (heap s)" and m_lt: "m < length (heap s)"
    using assms(1-3) by (simp_all add: valid_refs_def)
  have m': "model ?s' = Some m" and r': "reticle ?s' = Some r"
    using assms(2,3) by (simp_all add: eq)
  have hr: "heap ?s' ! r = heap s ! r" and hm: "heap ?s' ! m = heap s ! m"
    using r_lt m_lt by (simp_all add: eq nth_append)
  have vis': "visible (heap ?s' ! r)" using assms(4) hr by simp
  have eq2: "onSelect ?s' =
     ?s'\<lparr> heap := heap ?s' @ [(heap ?s' ! m)\<lparr>position := position (heap ?s' ! r)\<rparr>],
        scene := scene ?s' @ [length (heap ?s')],
        objectsPlaced := objectsPlaced ?s' + 1,
        console := console ?s' @
          [LogObjectPlaced (position (heap ?s' ! r)) (objectsPlaced ?s' + 1)] \<rparr>"
    using m' r' vis' by (rule onSelect_valid)
  have "objectsPlaced (onSelect ?s') = objectsPlaced ?s' + 1" by (subst eq2) simp
  moreover have "objectsPlaced ?s' = objectsPlaced s + 1" by (subst eq) simp
  moreover have "scene (onSelect ?s') = scene ?s' @ [length (heap ?s')]" by (subst eq2) simp
  moreover have "scene ?s' = scene s @ [length (heap s)]" by (subst eq) simp
  moreover have "heap (onSelect ?s') =
      heap ?s' @ [(heap ?s' ! m)\<lparr>position := position (heap ?s' ! r)\<rparr>]"
    by (subst eq2) simp
  moreover have hs': "heap ?s' = heap s @ [(heap s ! m)\<lparr>position := position (heap s ! r)\<rparr>]"
    by (subst eq) simp
  moreover have "length (heap ?s') = Suc (length (heap s))" by (simp add: hs')
  ultimately show ?thesis using hr hm by simp
qed

section \<open>The invariant of the orientations\<close>

lemma identity_roots_init: "identity_roots (init_state hts msg btn projection)"
  by (simp add: identity_roots_def init_state_def)

lemma identity_roots_frame:
  assumes "valid_refs s" "identity_roots s"
  shows "identity_roots (frameCallback f s)"
proof -
  have r: "quaternion (heap (frameCallback f s) ! r) = quaternion (heap s ! r)"
    if "reticle s = Some r" for r
  proof -
    have lt: "r < length (heap s)" using assms(1) that by (simp add: valid_refs_def)
    show ?thesis using that lt
      by (simp add: frameCallback_unfold processHitTest_def split: option.splits list.splits)
  qed
  have m: "heap (frameCallback f s) ! m = heap s ! m" if "model s = Some m" for m
  proof -
    have "reticle s \<noteq> Some m"
      using assms(1) that by (auto simp add: valid_refs_def split: option.splits)
    then show ?thesis by (rule frame_other)
  qed
  show ?thesis using assms(2) r m
    by (auto simp add: identity_roots_def split: option.splits)
qed

lemma identity_roots_select:
  assumes "valid_refs s" "identity_roots s"
  shows "identity_roots (onSelect s)"
proof (cases "onSelect s = s")
  case True
  then show ?thesis using assms(2) by simp
next
  case False
  then obtain m r where m: "model s = Some m" and r: "reticle s = Some r"
    and vis: "visible (heap s ! r)"
    by (auto simp add: onSelect_def split: option.splits if_splits)
  have lt: "r < length (heap s)" "m < length (heap s)"
    using assms(1) m r by (simp_all add: valid_refs_def)
  show ?thesis
    using assms(2) m r lt
    by (simp add: onSelect_valid [OF m r vis] identity_roots_def nth_append)
qed

lemma identity_roots_reticle:
  assumes "valid_refs s" "identity_roots s" "fresh_group g"
  shows "identity_roots (reticleLoaded g s)"
proof -
  have "m < length (heap s)" if "model s = Some m" for m
    using assms(1) that by (simp add: valid_refs_def)
  then show ?thesis
    using assms(2,3)
    by (auto simp add: identity_roots_def reticleLoaded_def nth_append fresh_group_def
        split: option.splits)
qed

lemma identity_roots_model:
  assumes "valid_refs s" "identity_roots s" "fresh_group g"
  shows "identity_roots (modelLoaded g s)"
proof -
  have "r < length (heap s)" if "reticle s = Some r" for r
    using assms(1) that by (simp add: valid_refs_def)
  then show ?thesis
    using assms(2,3)
    by (auto simp add: identity_roots_def modelLoaded_def nth_append fresh_group_def
        split: option.splits)
qed

lemma identity_roots_end:
  assumes "identity_roots s"
  shows "identity_roots (onEnd s)"
  using assms by (auto simp add: identity_roots_def split: option.splits)

lemma identity_roots_step:
  assumes "valid_refs s" "identity_roots s" "deliverable e"
  shows "identity_roots (step s e)"
proof (cases e)
  case (Frame f)
  then show ?thesis using assms(1,2) by (simp add: identity_roots_frame)
next
  case Select
  then show ?thesis using assms(1,2) by (simp add: identity_roots_select)
next
  case (ReticleLoad g)
  then show ?thesis using assms by (simp add: identity_roots_reticle)
next
  case (ModelLoad g)
  then show ?thesis using assms by (simp add: identity_roots_model)
next
  case SessionEnd
  then show ?thesis using assms(2) by (simp add: identity_roots_end)
qed

lemma identity_roots_run:
  assumes "list_all deliverable evs" "valid_refs s" "identity_roots s"
  shows "identity_roots (run s evs)"
  using assms
proof (induction evs arbitrary: s)
  case Nil
  then show ?case by (simp add: run_def)
next
  case (Cons e evs)
  have d: "deliverable e" and rest: "list_all deliverable evs"
    using Cons.prems(1) by simp_all
  have "identity_roots (run (step s e) evs)"
    using Cons.IH [OF rest valid_refs_step [OF Cons.prems(2)]
        identity_roots_step [OF Cons.prems(2,3) d]] .
  then show ?case by (simp add: run_def)
qed

text \<open>
  Every state that a session reaches from its start has valid references and the
  orientations of new objects.
\<close>

lemma reached_invariants:
  assumes "list_all deliverable evs"
  shows "valid_refs (run (init_state hts msg btn projection) evs) \<and>
         identity_roots (run (init_state hts msg btn projection) evs)"
proof
  show "valid_refs (run (init_state hts msg btn projection) evs)"
    by (rule valid_refs_run [OF valid_refs_init])
  show "identity_roots (run (init_state hts msg btn projection) evs)"
    by (rule identity_roots_run [OF assms valid_refs_init identity_roots_init])
qed

text \<open>
  With the orientations of new objects, the clone that a select signal places has the
  pose of the reticle.
\<close>

lemma clone_pose:
  assumes "identity_roots s" "model s = Some m" "reticle s = Some r"
  shows "object_pose ((heap s ! m)\<lparr>position := position (heap s ! r)\<rparr>) =
         object_pose (heap s ! r)"
  using assms by (simp add: identity_roots_def object_pose_def)

section \<open>The end listener\<close>

text \<open>
  What a handler does to the core depends on the core and on \<open>hitTestSource\<close> only,
  not on the log or on the page.
\<close>

lemma core_step:
  assumes "core s = core t" "hitTestSource s = hitTestSource t"
  shows "core (step s e) = core (step t e) \<and>
         hitTestSource (step s e) = hitTestSource (step t e)"
proof (cases e)
  case (Frame f)
  then show ?thesis using assms
    by (auto simp add: core_def frameCallback_unfold processHitTest_def
        split: option.splits list.splits)
next
  case Select
  then show ?thesis using assms
    by (auto simp add: core_def onSelect_def Let_def split: option.splits)
next
  case (ReticleLoad g)
  then show ?thesis using assms by (auto simp add: core_def reticleLoaded_def)
next
  case (ModelLoad g)
  then show ?thesis using assms by (auto simp add: core_def modelLoaded_def)
next
  case SessionEnd
  then show ?thesis using assms by (auto simp add: core_def)
qed

lemma core_run:
  assumes "core s = core t" "hitTestSource s = hitTestSource t"
  shows "core (run s evs) = core (run t evs)"
  using assms
proof (induction evs arbitrary: s t)
  case Nil
  then show ?case by (simp add: run_def)
next
  case (Cons e evs)
  show ?case
    using Cons.IH [of "step s e" "step t e"] core_step [OF Cons.prems, of e]
    by (simp add: run_def)
qed

section \<open>The claims\<close>

subsection \<open>C1: the visibility flag after a frame\<close>

text \<open>
  Claim C1 says that after every frame \<open>Marker.visible\<close> equals the presence of the
  frame's surface estimate. The code decides it so only on a tracked frame, with the hit
  test source created and the reticle loaded, and only when the hit test has no result
  (hidden) or its first result resolves to a pose (shown). What holds, for every state
  with valid references and every frame: on a tracked frame, with the hit-test source
  and the reticle there, the flag afterwards is false when the query has no result, true
  when the first result's pose resolves, and what it was before when that pose does not
  resolve; on every other frame (no viewer pose, no viewport, a frame on which the
  callback throws, no hit-test source, no reticle yet) it is what it was before.
\<close>

theorem C1_visible_after_frame:
  assumes "valid_refs s"
  shows "marker_visible (frameCallback frame s) =
     (if tracked frame \<and> hitTestSource s \<and> reticle s \<noteq> None then
        (if hitTestResults frame = [] then False
         else if surface_estimate frame \<noteq> None then True
         else marker_visible s)
      else marker_visible s)"
  using assms by (rule marker_visible_frame)

text \<open>The theorem at the loaded reticle and a frame with a pose on the floor.\<close>

theorem C1_visible_after_frame_witness:
  "valid_refs session_reticle \<and>
   marker_visible
     (frameCallback (frame_with [\<lparr>getPose = Some floor_pose\<rparr>]) session_reticle)"
proof -
  have v: "valid_refs session_reticle"
    unfolding session_reticle_def session0_def by (intro valid_refs_run valid_refs_init)
  have "marker_visible
     (frameCallback (frame_with [\<lparr>getPose = Some floor_pose\<rparr>]) session_reticle)"
    unfolding C1_visible_after_frame [OF v]
    by (simp add: tracked_def frame_with_def surface_estimate_def session_reticle_def
        session0_def run_def reticleLoaded_def init_state_def)
  with v show ?thesis by simp
qed

text \<open>
  C1 as stated fails on a frame whose first hit result does not resolve to a pose. After
  the reticle was shown, such a frame has no estimate and leaves the reticle visible;
  right after the load, the same frame has a hit result and leaves the reticle hidden.
\<close>

theorem C1_counterexample:
  "surface_estimate (frame_with [\<lparr>getPose = None\<rparr>]) = None \<and>
   marker_visible
     (run session0
        [ReticleLoad reticle_asset,
         Frame (frame_with [\<lparr>getPose = Some floor_pose\<rparr>]),
         Frame (frame_with [\<lparr>getPose = None\<rparr>])]) \<and>
   hitTestResults (frame_with [\<lparr>getPose = None\<rparr>]) \<noteq> [] \<and>
   \<not> marker_visible
     (run session0
        [ReticleLoad reticle_asset, Frame (frame_with [\<lparr>getPose = None\<rparr>])])"
  by (simp add: scenario_defs)

subsection \<open>C2: the reticle's transform after a frame with an estimate\<close>

text \<open>
  Claim C2 says that after a frame with an estimate the marker's transform is the
  estimate's, position and orientation. The code copies the three coordinates of the
  position and nothing else. What holds, for every state with valid references, a
  loaded reticle and a hit-test source, and every tracked frame whose first hit result
  resolves to the pose \<open>T\<close>: afterwards the reticle is visible, its position is the
  position of \<open>T\<close>, and its orientation, scale and node tree are what they were.
\<close>

theorem C2_frame_copies_position:
  assumes "valid_refs s" "reticle s = Some r" "tracked frame" "hitTestSource s"
    "surface_estimate frame = Some T"
  shows "heap (frameCallback frame s) ! r =
           (heap s ! r)\<lparr>visible := True, position := xyz (xr_position T)\<rparr> \<and>
         position (heap (frameCallback frame s) ! r) = xyz (xr_position T) \<and>
         quaternion (heap (frameCallback frame s) ! r) = quaternion (heap s ! r) \<and>
         marker_visible (frameCallback frame s)"
proof -
  have lt: "r < length (heap s)"
    using assms(1,2) by (simp add: valid_refs_def)
  have "heap (frameCallback frame s) =
      (heap s)[r := (heap s ! r)\<lparr>visible := True, position := xyz (xr_position T)\<rparr>]"
    using assms(2-5) by (rule heap_frame_present)
  then have at_r: "heap (frameCallback frame s) ! r =
      (heap s ! r)\<lparr>visible := True, position := xyz (xr_position T)\<rparr>"
    using lt by simp
  have "marker_visible (frameCallback frame s)"
    using assms(2) at_r by (simp add: marker_visible_def)
  then show ?thesis using at_r by simp
qed

text \<open>The theorem at the loaded reticle and a frame with a pose on the wall.\<close>

theorem C2_frame_copies_position_witness:
  "valid_refs session_reticle \<and> reticle session_reticle = Some 2 \<and>
   tracked (frame_with [\<lparr>getPose = Some wall_pose\<rparr>]) \<and>
   hitTestSource session_reticle \<and>
   surface_estimate (frame_with [\<lparr>getPose = Some wall_pose\<rparr>]) = Some wall_pose \<and>
   position
     (heap (frameCallback (frame_with [\<lparr>getPose = Some wall_pose\<rparr>]) session_reticle) ! 2)
     = Vector3 0 1 (-3) \<and>
   quaternion
     (heap (frameCallback (frame_with [\<lparr>getPose = Some wall_pose\<rparr>]) session_reticle) ! 2)
     = Quaternion 0 0 0 1"
proof -
  have v: "valid_refs session_reticle"
    unfolding session_reticle_def session0_def by (intro valid_refs_run valid_refs_init)
  have r: "reticle session_reticle = Some 2"
    by (simp add: session_reticle_def session0_def run_def reticleLoaded_def init_state_def)
  have t: "tracked (frame_with [\<lparr>getPose = Some wall_pose\<rparr>])"
    by (simp add: tracked_def frame_with_def)
  have h: "hitTestSource session_reticle"
    by (simp add: session_reticle_def session0_def run_def reticleLoaded_def init_state_def)
  have e: "surface_estimate (frame_with [\<lparr>getPose = Some wall_pose\<rparr>]) = Some wall_pose"
    by (simp add: surface_estimate_def frame_with_def)
  have old: "quaternion (heap session_reticle ! 2) = Quaternion 0 0 0 1"
    by (simp add: session_reticle_def session0_def run_def reticleLoaded_def init_state_def
        reticle_asset_def)
  have p: "xyz (xr_position wall_pose) = Vector3 0 1 (-3)"
    by (simp add: wall_pose_def)
  show ?thesis
    using C2_frame_copies_position [OF v r t h e] v r t h e old p by simp
qed

text \<open>
  C2 as stated fails on the orientation: the reticle is loaded, and a frame reports the
  pose on the wall. The reticle takes the position and keeps the orientation it was
  loaded with.
\<close>

theorem C2_counterexample:
  "surface_estimate (frame_with [\<lparr>getPose = Some wall_pose\<rparr>]) = Some wall_pose \<and>
   reticle (run session0
      [ReticleLoad reticle_asset, Frame (frame_with [\<lparr>getPose = Some wall_pose\<rparr>])])
     = Some 2 \<and>
   object_pose (heap (run session0
      [ReticleLoad reticle_asset, Frame (frame_with [\<lparr>getPose = Some wall_pose\<rparr>])]) ! 2)
     = (Vector3 0 1 (-3), Quaternion 0 0 0 1) \<and>
   transform_pose wall_pose = (Vector3 0 1 (-3), Quaternion 1 0 0 0) \<and>
   object_pose (heap (run session0
      [ReticleLoad reticle_asset, Frame (frame_with [\<lparr>getPose = Some wall_pose\<rparr>])]) ! 2)
     \<noteq> transform_pose wall_pose"
  by (simp add: scenario_defs)

subsection \<open>C3: a select signal that places\<close>

text \<open>
  Claim C3: a select signal that arrives while the model is loaded and the marker is
  visible adds exactly one to the counter and registers exactly one new instance with
  the scene, whose transform is a snapshot of the marker's transform at the call and is
  not aliased to it. For every state that a session reaches from its start (by frames,
  select and end signals, and loads that complete with a scene of the loader), with the
  model loaded and the reticle visible: the counter grows by exactly one; exactly one
  object is created, and it is appended to the scene's children under a reference the
  scene did not hold; the new object is a copy of the model with the reticle's position;
  its pose, position and orientation, is the reticle's pose at the call; and whatever
  events follow, frames that move or hide the reticle among them, the new object stays
  as it was created, and so does its pose.
\<close>

theorem C3_select_places_snapshot:
  assumes "list_all deliverable evs0" "s = run (init_state hts msg btn projection) evs0"
    "model s = Some m" "reticle s = Some r" "visible (heap s ! r)"
  shows "objectsPlaced (onSelect s) = objectsPlaced s + 1 \<and>
     heap (onSelect s) = heap s @ [(heap s ! m)\<lparr>position := position (heap s ! r)\<rparr>] \<and>
     scene (onSelect s) = scene s @ [length (heap s)] \<and>
     length (heap s) \<notin> set (scene s) \<and>
     object_pose (heap (onSelect s) ! length (heap s)) = object_pose (heap s ! r) \<and>
     (\<forall>evs. heap (run (onSelect s) evs) ! length (heap s) =
        heap (onSelect s) ! length (heap s)) \<and>
     (\<forall>evs. object_pose (heap (run (onSelect s) evs) ! length (heap s)) =
        object_pose (heap s ! r))"
proof -
  let ?s' = "onSelect s"
  let ?c = "length (heap s)"
  have v: "valid_refs s" and upright: "identity_roots s"
    using reached_invariants [OF assms(1), of hts msg btn projection] assms(2) by simp_all
  have eq: "?s' =
     s\<lparr> heap := heap s @ [(heap s ! m)\<lparr>position := position (heap s ! r)\<rparr>],
        scene := scene s @ [?c],
        objectsPlaced := objectsPlaced s + 1,
        console := console s @
          [LogObjectPlaced (position (heap s ! r)) (objectsPlaced s + 1)] \<rparr>"
    using assms(3-5) by (rule onSelect_valid)
  have fresh: "?c \<notin> set (scene s)"
    using v by (auto simp add: valid_refs_def list_all_iff)
  have v': "valid_refs ?s'"
    using valid_refs_step [OF v, of Select] by simp
  have r_lt: "r < ?c" using v assms(4) by (simp add: valid_refs_def)
  have len: "?c < length (heap ?s')" by (simp add: eq)
  have ret: "reticle ?s' \<noteq> Some ?c" using r_lt assms(4) by (simp add: eq)
  have later: "heap (run ?s' evs) ! ?c = heap ?s' ! ?c" for evs
    using untouched_run [OF v' len ret] .
  have at_c: "heap ?s' ! ?c = (heap s ! m)\<lparr>position := position (heap s ! r)\<rparr>"
    by (simp add: eq)
  have pose: "object_pose (heap ?s' ! ?c) = object_pose (heap s ! r)"
    unfolding at_c using upright assms(3,4) by (rule clone_pose)
  have heap': "heap ?s' = heap s @ [(heap s ! m)\<lparr>position := position (heap s ! r)\<rparr>]"
    and scene': "scene ?s' = scene s @ [?c]"
    and counter': "objectsPlaced ?s' = objectsPlaced s + 1"
    by (simp_all add: eq)
  show ?thesis
    using counter' heap' scene' fresh pose later by simp
qed

text \<open>
  The theorem at the session with the reticle on the floor: the instance has the pose of
  the reticle, and a later frame that moves the reticle to the wall leaves it there.
\<close>

theorem C3_select_places_snapshot_witness:
  "list_all deliverable
     [ReticleLoad reticle_asset, ModelLoad crate_asset,
      Frame (frame_with [\<lparr>getPose = Some floor_pose\<rparr>])] \<and>
   model session_floor = Some 3 \<and>
   reticle session_floor = Some 2 \<and> visible (heap session_floor ! 2) \<and>
   object_pose (heap session_floor ! 2) = (Vector3 1 0 (-2), Quaternion 0 0 0 1) \<and>
   objectsPlaced (onSelect session_floor) = 1 \<and>
   scene (onSelect session_floor) = [0, 1, 2, 4] \<and>
   object_pose (heap (onSelect session_floor) ! 4)
     = (Vector3 1 0 (-2), Quaternion 0 0 0 1) \<and>
   object_pose
     (heap (run (onSelect session_floor)
        [Frame (frame_with [\<lparr>getPose = Some wall_pose\<rparr>])]) ! 4)
     = (Vector3 1 0 (-2), Quaternion 0 0 0 1)"
proof -
  have d: "list_all deliverable
     [ReticleLoad reticle_asset, ModelLoad crate_asset,
      Frame (frame_with [\<lparr>getPose = Some floor_pose\<rparr>])]"
    by (simp add: fresh_group_def reticle_asset_def crate_asset_def)
  have reached: "session_floor =
      run (init_state True (Some []) (Some False) projection0)
        [ReticleLoad reticle_asset, ModelLoad crate_asset,
         Frame (frame_with [\<lparr>getPose = Some floor_pose\<rparr>])]"
    by (simp add: session_floor_def session0_def)
  have m: "model session_floor = Some 3" and r: "reticle session_floor = Some 2"
    and vis: "visible (heap session_floor ! 2)"
    and len: "length (heap session_floor) = 4"
    and c: "objectsPlaced session_floor = 0"
    and sc: "scene session_floor = [0, 1, 2]"
    and pose: "object_pose (heap session_floor ! 2) = (Vector3 1 0 (-2), Quaternion 0 0 0 1)"
    by (simp_all add: scenario_defs)
  note placed = C3_select_places_snapshot [OF d reached m r vis, unfolded len c sc pose]
  have counter: "objectsPlaced (onSelect session_floor) = 1"
    using placed by simp
  have children: "scene (onSelect session_floor) = [0, 1, 2, 4]"
    using placed by simp
  have at_call: "object_pose (heap (onSelect session_floor) ! 4)
      = (Vector3 1 0 (-2), Quaternion 0 0 0 1)"
    using placed by blast
  have later: "object_pose
     (heap (run (onSelect session_floor)
        [Frame (frame_with [\<lparr>getPose = Some wall_pose\<rparr>])]) ! 4)
     = (Vector3 1 0 (-2), Quaternion 0 0 0 1)"
    using placed by blast
  show ?thesis
    using d m r vis pose counter children at_call later by blast
qed

subsection \<open>C4: a select signal that does not place\<close>

text \<open>
  Claim C4: a select signal that arrives while the model is not loaded, or while the
  marker is not visible, is a silent no-op. The whole state after the call is the state
  before it: counter, objects, scene's children and log.
\<close>

theorem C4_select_noop:
  assumes "model s = None \<or> \<not> marker_visible s"
  shows "onSelect s = s"
  using assms by (rule onSelect_noop)

text \<open>
  The theorem at the session with the reticle loaded and hidden, and at the session
  whose model is not loaded.
\<close>

theorem C4_select_noop_witness:
  "\<not> marker_visible session_reticle \<and> onSelect session_reticle = session_reticle \<and>
   model session0 = None \<and> onSelect session0 = session0"
proof -
  have hidden: "\<not> marker_visible session_reticle"
    by (simp add: marker_visible_def session_reticle_def session0_def run_def
        reticleLoaded_def init_state_def)
  have unloaded: "model session0 = None"
    by (simp add: session0_def init_state_def)
  show ?thesis
    using C4_select_noop [of session_reticle] C4_select_noop [of session0] hidden unloaded
    by blast
qed

subsection \<open>C5: the counter and the instances over a run\<close>

text \<open>
  Claim C5: over every sequence of frames and select signals the counter never
  decreases and each valid select signal creates exactly one instance; for example two
  select signals in a row, with the marker visible at the transform \<open>T\<close>, raise the
  counter by two with both instances at \<open>T\<close>. Over every sequence of events the
  counter is its old value plus the number of valid select signals, so it never
  decreases; over every sequence of frames and select signals the scene's children and
  the objects grow by exactly that number; two select signals in a row, with the model
  loaded and the reticle visible, raise the counter by two and append two new objects
  to the scene, both the model with the reticle's position; and in every state that a
  session reaches from its start both have the pose of the reticle, position and
  orientation.
\<close>

theorem C5_counter_and_instances:
  "objectsPlaced s \<le> objectsPlaced (run s evs) \<and>
   objectsPlaced (run s evs) = objectsPlaced s + valid_selects s evs \<and>
   (list_all frame_or_select evs \<longrightarrow>
      length (scene (run s evs)) = length (scene s) + valid_selects s evs \<and>
      length (heap (run s evs)) = length (heap s) + valid_selects s evs) \<and>
   (valid_refs s \<and> model s = Some m \<and> reticle s = Some r \<and> visible (heap s ! r) \<longrightarrow>
      objectsPlaced (run s [Select, Select]) = objectsPlaced s + 2 \<and>
      scene (run s [Select, Select]) = scene s @ [length (heap s), Suc (length (heap s))] \<and>
      heap (run s [Select, Select]) =
        heap s @ [(heap s ! m)\<lparr>position := position (heap s ! r)\<rparr>,
                  (heap s ! m)\<lparr>position := position (heap s ! r)\<rparr>]) \<and>
   (list_all deliverable evs0 \<and> s = run (init_state hts msg btn projection) evs0 \<and>
    model s = Some m \<and> reticle s = Some r \<and> visible (heap s ! r) \<longrightarrow>
      objectsPlaced (run s [Select, Select]) = objectsPlaced s + 2 \<and>
      scene (run s [Select, Select]) = scene s @ [length (heap s), Suc (length (heap s))] \<and>
      object_pose (heap (run s [Select, Select]) ! length (heap s))
        = object_pose (heap s ! r) \<and>
      object_pose (heap (run s [Select, Select]) ! Suc (length (heap s)))
        = object_pose (heap s ! r))"
proof -
  have count: "objectsPlaced (run s evs) = objectsPlaced s + valid_selects s evs"
    by (rule counter_run)
  then have mono: "objectsPlaced s \<le> objectsPlaced (run s evs)"
    by simp
  have twice: "run s [Select, Select] = onSelect (onSelect s)"
    by (simp add: run_def)
  have general: "valid_refs s \<and> model s = Some m \<and> reticle s = Some r \<and>
      visible (heap s ! r) \<longrightarrow>
      objectsPlaced (run s [Select, Select]) = objectsPlaced s + 2 \<and>
      scene (run s [Select, Select]) = scene s @ [length (heap s), Suc (length (heap s))] \<and>
      heap (run s [Select, Select]) =
        heap s @ [(heap s ! m)\<lparr>position := position (heap s ! r)\<rparr>,
                  (heap s ! m)\<lparr>position := position (heap s ! r)\<rparr>]"
    using two_selects [of s m r] unfolding twice by blast
  have reached: "objectsPlaced (run s [Select, Select]) = objectsPlaced s + 2 \<and>
      scene (run s [Select, Select]) = scene s @ [length (heap s), Suc (length (heap s))] \<and>
      object_pose (heap (run s [Select, Select]) ! length (heap s))
        = object_pose (heap s ! r) \<and>
      object_pose (heap (run s [Select, Select]) ! Suc (length (heap s)))
        = object_pose (heap s ! r)"
    if d: "list_all deliverable evs0"
      and s: "s = run (init_state hts msg btn projection) evs0"
      and m: "model s = Some m" and r: "reticle s = Some r" and vis: "visible (heap s ! r)"
  proof -
    have v: "valid_refs s" and upright: "identity_roots s"
      using reached_invariants [OF d, of hts msg btn projection] s by simp_all
    have pose: "object_pose ((heap s ! m)\<lparr>position := position (heap s ! r)\<rparr>) =
        object_pose (heap s ! r)"
      using upright m r by (rule clone_pose)
    have both: "objectsPlaced (run s [Select, Select]) = objectsPlaced s + 2 \<and>
      scene (run s [Select, Select]) = scene s @ [length (heap s), Suc (length (heap s))] \<and>
      heap (run s [Select, Select]) =
        heap s @ [(heap s ! m)\<lparr>position := position (heap s ! r)\<rparr>,
                  (heap s ! m)\<lparr>position := position (heap s ! r)\<rparr>]"
      using general v m r vis by blast
    then have first: "heap (run s [Select, Select]) ! length (heap s) =
        (heap s ! m)\<lparr>position := position (heap s ! r)\<rparr>"
      and second: "heap (run s [Select, Select]) ! Suc (length (heap s)) =
        (heap s ! m)\<lparr>position := position (heap s ! r)\<rparr>"
      by (simp_all add: nth_append)
    show ?thesis
      unfolding first second using both pose by simp
  qed
  show ?thesis
    using mono count instances_run [of evs s] general reached by blast
qed

text \<open>
  The theorem at the session with the reticle on the floor and two select signals.
\<close>

theorem C5_counter_and_instances_witness:
  "list_all frame_or_select [Select, Select] \<and>
   list_all deliverable
     [ReticleLoad reticle_asset, ModelLoad crate_asset,
      Frame (frame_with [\<lparr>getPose = Some floor_pose\<rparr>])] \<and>
   valid_refs session_floor \<and> model session_floor = Some 3 \<and>
   reticle session_floor = Some 2 \<and> visible (heap session_floor ! 2) \<and>
   object_pose (heap session_floor ! 2) = (Vector3 1 0 (-2), Quaternion 0 0 0 1) \<and>
   valid_selects session_floor [Select, Select] = 2 \<and>
   objectsPlaced (run session_floor [Select, Select]) = 2 \<and>
   scene (run session_floor [Select, Select]) = [0, 1, 2, 4, 5] \<and>
   length (heap (run session_floor [Select, Select])) = 6 \<and>
   object_pose (heap (run session_floor [Select, Select]) ! 4)
     = (Vector3 1 0 (-2), Quaternion 0 0 0 1) \<and>
   object_pose (heap (run session_floor [Select, Select]) ! 5)
     = (Vector3 1 0 (-2), Quaternion 0 0 0 1)"
proof -
  have d: "list_all deliverable
     [ReticleLoad reticle_asset, ModelLoad crate_asset,
      Frame (frame_with [\<lparr>getPose = Some floor_pose\<rparr>])]"
    by (simp add: fresh_group_def reticle_asset_def crate_asset_def)
  have reached: "session_floor =
      run (init_state True (Some []) (Some False) projection0)
        [ReticleLoad reticle_asset, ModelLoad crate_asset,
         Frame (frame_with [\<lparr>getPose = Some floor_pose\<rparr>])]"
    by (simp add: session_floor_def session0_def)
  have v: "valid_refs session_floor"
    unfolding session_floor_def session0_def by (intro valid_refs_run valid_refs_init)
  have m: "model session_floor = Some 3" and r: "reticle session_floor = Some 2"
    and vis: "visible (heap session_floor ! 2)"
    and len: "length (heap session_floor) = 4"
    and c: "objectsPlaced session_floor = 0"
    and sc: "scene session_floor = [0, 1, 2]"
    and pose: "object_pose (heap session_floor ! 2) = (Vector3 1 0 (-2), Quaternion 0 0 0 1)"
    by (simp_all add: scenario_defs)
  have fs: "list_all frame_or_select [Select, Select]"
    by simp
  note all = C5_counter_and_instances [of session_floor "[Select, Select]" 3 2
      "[ReticleLoad reticle_asset, ModelLoad crate_asset,
        Frame (frame_with [\<lparr>getPose = Some floor_pose\<rparr>])]"
      True "Some []" "Some False" projection0,
      unfolded len c sc pose]
  have counter: "objectsPlaced (run session_floor [Select, Select]) = 2"
    using all v m r vis by simp
  have children: "scene (run session_floor [Select, Select]) = [0, 1, 2, 4, 5]"
    using all v m r vis by simp
  have valid: "valid_selects session_floor [Select, Select] = 2"
    using all counter by simp
  have objects: "length (heap (run session_floor [Select, Select])) = 6"
    using all fs valid by simp
  have first: "object_pose (heap (run session_floor [Select, Select]) ! 4)
      = (Vector3 1 0 (-2), Quaternion 0 0 0 1)"
    using all d reached m r vis by simp
  have second: "object_pose (heap (run session_floor [Select, Select]) ! 5)
      = (Vector3 1 0 (-2), Quaternion 0 0 0 1)"
    using all d reached m r vis by simp
  show ?thesis
    using fs d v m r vis pose valid counter children objects first second by blast
qed

subsection \<open>C6: the log lines of a change of visibility\<close>

text \<open>
  Claim C6 says that the frame callback logs "surface detected" exactly when the
  marker's visibility goes from false to true over the call and "surface lost" exactly
  when it goes from true to false, and that over the estimates absent, present,
  present, absent each line is logged once, the first at the second frame and the other
  at the fourth. The first half holds as it is said: for every state with valid
  references and every frame, the log after the call is the log before it followed by
  the lines of the change of visibility. The scenario holds of the frames on which the
  code sets the flag (C1): from a state with the reticle loaded and hidden and a
  hit-test source, over four tracked frames of which the first and the last have no hit
  result and the second and third have a first result whose pose resolves, the flag is
  false, true, true, false and the log gains nothing, then "surface detected", then
  nothing, then "surface lost".
\<close>

theorem C6_surface_events:
  assumes "valid_refs s"
  shows "console (frameCallback frame s) =
       console s @
         transition_events (marker_visible s) (marker_visible (frameCallback frame s)) \<and>
     (reticle s \<noteq> None \<and> \<not> marker_visible s \<and> hitTestSource s \<and>
      tracked f1 \<and> tracked f2 \<and> tracked f3 \<and> tracked f4 \<and>
      hitTestResults f1 = [] \<and> surface_estimate f2 = Some T1 \<and>
      surface_estimate f3 = Some T2 \<and> hitTestResults f4 = [] \<longrightarrow>
        map marker_visible
          [run s [Frame f1], run s [Frame f1, Frame f2],
           run s [Frame f1, Frame f2, Frame f3],
           run s [Frame f1, Frame f2, Frame f3, Frame f4]]
          = [False, True, True, False] \<and>
        map console
          [run s [Frame f1], run s [Frame f1, Frame f2],
           run s [Frame f1, Frame f2, Frame f3],
           run s [Frame f1, Frame f2, Frame f3, Frame f4]]
          = [console s, console s @ [LogSurfaceDetected],
             console s @ [LogSurfaceDetected],
             console s @ [LogSurfaceDetected, LogSurfaceLost]])"
proof (intro conjI impI)
  show "console (frameCallback frame s) =
       console s @
         transition_events (marker_visible s) (marker_visible (frameCallback frame s))"
    using assms by (rule console_frame)
next
  assume H: "reticle s \<noteq> None \<and> \<not> marker_visible s \<and> hitTestSource s \<and>
      tracked f1 \<and> tracked f2 \<and> tracked f3 \<and> tracked f4 \<and>
      hitTestResults f1 = [] \<and> surface_estimate f2 = Some T1 \<and>
      surface_estimate f3 = Some T2 \<and> hitTestResults f4 = []"
  define s1 where "s1 = frameCallback f1 s"
  define s2 where "s2 = frameCallback f2 s1"
  define s3 where "s3 = frameCallback f3 s2"
  define s4 where "s4 = frameCallback f4 s3"
  have v1: "valid_refs s1"
    using valid_refs_step [OF assms, of "Frame f1"] by (simp add: s1_def)
  have v2: "valid_refs s2"
    using valid_refs_step [OF v1, of "Frame f2"] by (simp add: s2_def)
  have v3: "valid_refs s3"
    using valid_refs_step [OF v2, of "Frame f3"] by (simp add: s3_def)
  have ne2: "hitTestResults f2 \<noteq> []" and ne3: "hitTestResults f3 \<noteq> []"
    using H by (auto simp add: surface_estimate_def)
  have same: "reticle s1 \<noteq> None" "hitTestSource s1" "reticle s2 \<noteq> None" "hitTestSource s2"
    "reticle s3 \<noteq> None" "hitTestSource s3"
    using H by (simp_all add: s1_def s2_def s3_def)
  have m1: "marker_visible s1 = False"
    unfolding s1_def marker_visible_frame [OF assms] using H by simp
  have m2: "marker_visible s2 = True"
    unfolding s2_def marker_visible_frame [OF v1] using H same ne2 by simp
  have m3: "marker_visible s3 = True"
    unfolding s3_def marker_visible_frame [OF v2] using H same ne3 by simp
  have m4: "marker_visible s4 = False"
    unfolding s4_def marker_visible_frame [OF v3] using H same by simp
  have c1: "console s1 = console s"
    using console_frame [OF assms, of f1] m1 H
    by (simp add: s1_def [symmetric] transition_events_def)
  have c2: "console s2 = console s @ [LogSurfaceDetected]"
    using console_frame [OF v1, of f2] m1 m2 c1
    by (simp add: s2_def [symmetric] transition_events_def)
  have c3: "console s3 = console s @ [LogSurfaceDetected]"
    using console_frame [OF v2, of f3] m2 m3 c2
    by (simp add: s3_def [symmetric] transition_events_def)
  have c4: "console s4 = console s @ [LogSurfaceDetected, LogSurfaceLost]"
    using console_frame [OF v3, of f4] m3 m4 c3
    by (simp add: s4_def [symmetric] transition_events_def)
  have runs: "run s [Frame f1] = s1" "run s [Frame f1, Frame f2] = s2"
    "run s [Frame f1, Frame f2, Frame f3] = s3"
    "run s [Frame f1, Frame f2, Frame f3, Frame f4] = s4"
    by (simp_all add: run_def s1_def s2_def s3_def s4_def)
  show "map marker_visible
          [run s [Frame f1], run s [Frame f1, Frame f2],
           run s [Frame f1, Frame f2, Frame f3],
           run s [Frame f1, Frame f2, Frame f3, Frame f4]]
          = [False, True, True, False]"
    unfolding runs using m1 m2 m3 m4 by simp
  show "map console
          [run s [Frame f1], run s [Frame f1, Frame f2],
           run s [Frame f1, Frame f2, Frame f3],
           run s [Frame f1, Frame f2, Frame f3, Frame f4]]
          = [console s, console s @ [LogSurfaceDetected],
             console s @ [LogSurfaceDetected],
             console s @ [LogSurfaceDetected, LogSurfaceLost]]"
    unfolding runs using c1 c2 c3 c4 by simp
qed

text \<open>
  The theorem at the loaded reticle, with the poses on the floor and on the wall.
\<close>

theorem C6_surface_events_witness:
  "valid_refs session_reticle \<and> reticle session_reticle = Some 2 \<and>
   \<not> marker_visible session_reticle \<and> hitTestSource session_reticle \<and>
   tracked (frame_with []) \<and>
   tracked (frame_with [\<lparr>getPose = Some floor_pose\<rparr>]) \<and>
   tracked (frame_with [\<lparr>getPose = Some wall_pose\<rparr>]) \<and>
   surface_estimate (frame_with [\<lparr>getPose = Some floor_pose\<rparr>]) = Some floor_pose \<and>
   surface_estimate (frame_with [\<lparr>getPose = Some wall_pose\<rparr>]) = Some wall_pose \<and>
   console
     (run session_reticle
        [Frame (frame_with []), Frame (frame_with [\<lparr>getPose = Some floor_pose\<rparr>]),
         Frame (frame_with [\<lparr>getPose = Some wall_pose\<rparr>]), Frame (frame_with [])])
     = console session_reticle @ [LogSurfaceDetected, LogSurfaceLost]"
proof -
  have v: "valid_refs session_reticle"
    unfolding session_reticle_def session0_def by (intro valid_refs_run valid_refs_init)
  have r: "reticle session_reticle = Some 2"
    and hidden: "\<not> marker_visible session_reticle"
    and h: "hitTestSource session_reticle"
    by (simp_all add: marker_visible_def session_reticle_def session0_def run_def
        reticleLoaded_def init_state_def)
  have t: "tracked (frame_with [])"
    "tracked (frame_with [\<lparr>getPose = Some floor_pose\<rparr>])"
    "tracked (frame_with [\<lparr>getPose = Some wall_pose\<rparr>])"
    by (simp_all add: tracked_def frame_with_def)
  have e: "hitTestResults (frame_with []) = []"
    "surface_estimate (frame_with [\<lparr>getPose = Some floor_pose\<rparr>]) = Some floor_pose"
    "surface_estimate (frame_with [\<lparr>getPose = Some wall_pose\<rparr>]) = Some wall_pose"
    by (simp_all add: surface_estimate_def frame_with_def)
  have "console
     (run session_reticle
        [Frame (frame_with []), Frame (frame_with [\<lparr>getPose = Some floor_pose\<rparr>]),
         Frame (frame_with [\<lparr>getPose = Some wall_pose\<rparr>]), Frame (frame_with [])])
     = console session_reticle @ [LogSurfaceDetected, LogSurfaceLost]"
    using C6_surface_events [OF v, of "frame_with []" "frame_with []"
        "frame_with [\<lparr>getPose = Some floor_pose\<rparr>]"
        "frame_with [\<lparr>getPose = Some wall_pose\<rparr>]" "frame_with []"
        floor_pose wall_pose] r hidden h t e
    by simp
  then show ?thesis using v r hidden h t e by blast
qed

text \<open>
  The scenario of C6 as stated fails. With the reticle loaded, over frames whose
  estimates are absent, present, present, absent, where the absent ones have a hit
  result of which the pose does not resolve, the reticle stays visible at the fourth
  frame and "surface lost" is not logged. And before the reticle is loaded, over frames
  of which the absent ones have no hit result, the flag stays false and nothing is
  logged.
\<close>

theorem C6_counterexample:
  "map surface_estimate
     [frame_with [\<lparr>getPose = None\<rparr>], frame_with [\<lparr>getPose = Some floor_pose\<rparr>],
      frame_with [\<lparr>getPose = Some wall_pose\<rparr>], frame_with [\<lparr>getPose = None\<rparr>]]
     = [None, Some floor_pose, Some wall_pose, None] \<and>
   map marker_visible
     [run session_reticle [Frame (frame_with [\<lparr>getPose = None\<rparr>])],
      run session_reticle
        [Frame (frame_with [\<lparr>getPose = None\<rparr>]),
         Frame (frame_with [\<lparr>getPose = Some floor_pose\<rparr>])],
      run session_reticle
        [Frame (frame_with [\<lparr>getPose = None\<rparr>]),
         Frame (frame_with [\<lparr>getPose = Some floor_pose\<rparr>]),
         Frame (frame_with [\<lparr>getPose = Some wall_pose\<rparr>])],
      run session_reticle
        [Frame (frame_with [\<lparr>getPose = None\<rparr>]),
         Frame (frame_with [\<lparr>getPose = Some floor_pose\<rparr>]),
         Frame (frame_with [\<lparr>getPose = Some wall_pose\<rparr>]),
         Frame (frame_with [\<lparr>getPose = None\<rparr>])]]
     = [False, True, True, True] \<and>
   console
     (run session_reticle
        [Frame (frame_with [\<lparr>getPose = None\<rparr>]),
         Frame (frame_with [\<lparr>getPose = Some floor_pose\<rparr>]),
         Frame (frame_with [\<lparr>getPose = Some wall_pose\<rparr>]),
         Frame (frame_with [\<lparr>getPose = None\<rparr>])])
     = console session_reticle @ [LogSurfaceDetected] \<and>
   map surface_estimate
     [frame_with [], frame_with [\<lparr>getPose = Some floor_pose\<rparr>],
      frame_with [\<lparr>getPose = Some wall_pose\<rparr>], frame_with []]
     = [None, Some floor_pose, Some wall_pose, None] \<and>
   map marker_visible
     [run session0 [Frame (frame_with [])],
      run session0 [Frame (frame_with []), Frame (frame_with [\<lparr>getPose = Some floor_pose\<rparr>])],
      run session0
        [Frame (frame_with []), Frame (frame_with [\<lparr>getPose = Some floor_pose\<rparr>]),
         Frame (frame_with [\<lparr>getPose = Some wall_pose\<rparr>])],
      run session0
        [Frame (frame_with []), Frame (frame_with [\<lparr>getPose = Some floor_pose\<rparr>]),
         Frame (frame_with [\<lparr>getPose = Some wall_pose\<rparr>]), Frame (frame_with [])]]
     = [False, False, False, False] \<and>
   console
     (run session0
        [Frame (frame_with []), Frame (frame_with [\<lparr>getPose = Some floor_pose\<rparr>]),
         Frame (frame_with [\<lparr>getPose = Some wall_pose\<rparr>]), Frame (frame_with [])])
     = console session0"
  by (simp add: scenario_defs)

subsection \<open>C7: what the frame callback does not touch\<close>

text \<open>
  Claim C7: the frame callback changes the marker only. For every state with valid
  references and every frame, whatever its estimate: after the call the model reference
  is the same (loaded or not), the model object is what it was, the counter is the
  same, the scene's children are the same, and every object other than the reticle is
  what it was. This holds of the state that \<open>onXRFrame\<close> returns and of the state
  left by a call that throws.
\<close>

theorem C7_frame_touches_marker_only:
  assumes "valid_refs s"
  shows "model (frameCallback frame s) = model s \<and>
     objectsPlaced (frameCallback frame s) = objectsPlaced s \<and>
     (\<forall>m. model s = Some m \<longrightarrow> heap (frameCallback frame s) ! m = heap s ! m) \<and>
     scene (frameCallback frame s) = scene s \<and>
     length (heap (frameCallback frame s)) = length (heap s) \<and>
     (\<forall>n. reticle s \<noteq> Some n \<longrightarrow> heap (frameCallback frame s) ! n = heap s ! n) \<and>
     (\<forall>s'. onXRFrame frame s = Inr s' \<longrightarrow>
        model s' = model s \<and> objectsPlaced s' = objectsPlaced s \<and>
        (\<forall>m. model s = Some m \<longrightarrow> heap s' ! m = heap s ! m))"
proof -
  have other: "heap (frameCallback frame s) ! n = heap s ! n" if "reticle s \<noteq> Some n" for n
    using that by (rule frame_other)
  have model_obj: "heap (frameCallback frame s) ! m = heap s ! m" if "model s = Some m" for m
  proof -
    have "reticle s \<noteq> Some m"
      using assms that by (auto simp add: valid_refs_def split: option.splits)
    then show ?thesis by (rule frame_other)
  qed
  have returned: "frameCallback frame s = s'" if "onXRFrame frame s = Inr s'" for s'
    using that by (simp add: frameCallback_def)
  have fields: "model (frameCallback frame s) = model s"
    "objectsPlaced (frameCallback frame s) = objectsPlaced s"
    "scene (frameCallback frame s) = scene s"
    "length (heap (frameCallback frame s)) = length (heap s)"
    by simp_all
  show ?thesis
    using other model_obj returned fields by metis
qed

text \<open>
  The theorem at the session with the reticle on the floor and a frame that moves the
  reticle to the wall: the crate and the counter stay.
\<close>

theorem C7_frame_touches_marker_only_witness:
  "valid_refs session_floor \<and> model session_floor = Some 3 \<and>
   model (frameCallback (frame_with [\<lparr>getPose = Some wall_pose\<rparr>]) session_floor) = Some 3 \<and>
   objectsPlaced (frameCallback (frame_with [\<lparr>getPose = Some wall_pose\<rparr>]) session_floor)
     = 0 \<and>
   heap (frameCallback (frame_with [\<lparr>getPose = Some wall_pose\<rparr>]) session_floor) ! 3
     = crate_asset\<lparr>scale := Vector3 0.2 0.2 0.2\<rparr>"
proof -
  have v: "valid_refs session_floor"
    unfolding session_floor_def session0_def by (intro valid_refs_run valid_refs_init)
  have m: "model session_floor = Some 3"
    and c: "objectsPlaced session_floor = 0"
    and obj: "heap session_floor ! 3 = crate_asset\<lparr>scale := Vector3 0.2 0.2 0.2\<rparr>"
    by (simp_all add: scenario_defs)
  note kept = C7_frame_touches_marker_only
    [OF v, of "frame_with [\<lparr>getPose = Some wall_pose\<rparr>]"]
  have "heap (frameCallback (frame_with [\<lparr>getPose = Some wall_pose\<rparr>]) session_floor) ! 3
      = heap session_floor ! 3"
    using kept m by blast
  then show ?thesis
    using kept v m c obj by simp
qed

subsection \<open>C8: the end of the session\<close>

text \<open>
  Claim C8 says that after the end signal every frame or select call changes nothing
  and registers nothing. The code has no flag for the end of the session and neither
  handler asks whether the session has ended. What holds: the end listener itself
  changes no object, no child of the scene, neither reference and not the counter (it
  writes one log line, the message and the button); and after it every sequence of
  events acts on objects, scene, references and counter exactly as it would have
  without it. That no placement or marker update follows the end of a session is up to
  the platform, which stops calling the handlers.
\<close>

theorem C8_end_changes_nothing:
  "core (onEnd s) = core s \<and> console (onEnd s) = console s @ [LogSessionEnded] \<and>
   (\<forall>evs. core (run (onEnd s) evs) = core (run s evs))"
proof -
  have c: "core (onEnd s) = core s" by (simp add: core_def)
  have h: "hitTestSource (onEnd s) = hitTestSource s" by simp
  show ?thesis using c core_run [OF c h] by simp
qed

text \<open>
  The theorem at the session with the reticle on the floor: the end signal leaves the
  counter at 0, and a select signal after it counts as it would have before.
\<close>

theorem C8_end_changes_nothing_witness:
  "objectsPlaced (onEnd session_floor) = 0 \<and>
   objectsPlaced (run (onEnd session_floor) [Select]) = objectsPlaced (run session_floor [Select])"
proof -
  have c: "objectsPlaced session_floor = 0"
    by (simp add: scenario_defs)
  have "core (onEnd session_floor) = core session_floor"
    and "core (run (onEnd session_floor) [Select]) = core (run session_floor [Select])"
    using C8_end_changes_nothing [of session_floor] by blast+
  then show ?thesis using c by (simp add: core_def)
qed

text \<open>
  C8 as stated fails: in the session with the reticle on the floor, a select signal
  after the end signal places a crate and counts it, and a frame without hit results
  after the end signal hides the reticle.
\<close>

theorem C8_counterexample:
  "objectsPlaced (run session_floor [SessionEnd]) = 0 \<and>
   scene (run session_floor [SessionEnd]) = [0, 1, 2] \<and>
   objectsPlaced (run session_floor [SessionEnd, Select]) = 1 \<and>
   scene (run session_floor [SessionEnd, Select]) = [0, 1, 2, 4] \<and>
   marker_visible (run session_floor [SessionEnd]) \<and>
   \<not> marker_visible (run session_floor [SessionEnd, Frame (frame_with [])])"
  by (simp add: scenario_defs)

subsection \<open>C9: a hit result whose pose does not resolve\<close>

text \<open>
  Claim C9: on a frame whose hit test has a result of which the pose does not resolve,
  the frame callback leaves the marker as it was. For every state and every such frame:
  the objects (the reticle with its visibility and position among them), the reticle
  reference and the log are the same after the call, and so is the marker's
  visibility.
\<close>

theorem C9_unresolved_pose_keeps_marker:
  assumes "hitTestResults frame = hit # rest" "getPose hit = None"
  shows "heap (frameCallback frame s) = heap s \<and>
     reticle (frameCallback frame s) = reticle s \<and>
     console (frameCallback frame s) = console s \<and>
     marker_visible (frameCallback frame s) = marker_visible s"
proof -
  have same: "heap (frameCallback frame s) = heap s \<and>
      console (frameCallback frame s) = console s"
    using assms by (rule frame_unresolved)
  then show ?thesis by (simp add: marker_visible_def split: option.splits)
qed

text \<open>
  The theorem at the session with the reticle on the floor: the reticle stays visible at
  the floor pose.
\<close>

theorem C9_unresolved_pose_keeps_marker_witness:
  "hitTestResults (frame_with [\<lparr>getPose = None\<rparr>]) = [\<lparr>getPose = None\<rparr>] \<and>
   getPose \<lparr>getPose = None\<rparr> = None \<and>
   marker_visible (frameCallback (frame_with [\<lparr>getPose = None\<rparr>]) session_floor) \<and>
   position (heap (frameCallback (frame_with [\<lparr>getPose = None\<rparr>]) session_floor) ! 2)
     = Vector3 1 0 (-2)"
proof -
  have hits: "hitTestResults (frame_with [\<lparr>getPose = None\<rparr>]) = [\<lparr>getPose = None\<rparr>]"
    by (simp add: frame_with_def)
  have unresolved: "getPose \<lparr>getPose = None\<rparr> = None"
    by simp
  have before: "marker_visible session_floor"
    "position (heap session_floor ! 2) = Vector3 1 0 (-2)"
    by (simp_all add: scenario_defs)
  show ?thesis
    using C9_unresolved_pose_keeps_marker [OF hits unresolved, of session_floor]
      hits before by simp
qed

subsection \<open>C10: before the reticle is loaded\<close>

text \<open>
  Claim C10: as long as the reticle is not loaded, the frame callback updates no marker
  whatever the estimate, and a select signal is a silent no-op, also with the model
  loaded and a surface estimate present. For every state without a reticle and every
  frame: after the frame callback the objects, the scene's children and the log are the
  same and there is still no reticle and no visible marker; and the select listener
  returns the state unchanged.
\<close>

theorem C10_no_reticle_no_effect:
  assumes "reticle s = None"
  shows "heap (frameCallback frame s) = heap s \<and>
     scene (frameCallback frame s) = scene s \<and>
     console (frameCallback frame s) = console s \<and>
     reticle (frameCallback frame s) = None \<and>
     \<not> marker_visible (frameCallback frame s) \<and>
     onSelect s = s"
proof -
  have same: "heap (frameCallback frame s) = heap s \<and>
      console (frameCallback frame s) = console s"
    using assms by (rule frame_no_reticle)
  have hidden: "\<not> marker_visible s"
    using assms by (simp add: marker_visible_def)
  then have "onSelect s = s"
    by (simp add: onSelect_noop)
  then show ?thesis using same assms by (simp add: marker_visible_def)
qed

text \<open>
  The theorem at the session in which the crate is loaded and the reticle is not, with
  a frame that has a pose on the floor.
\<close>

theorem C10_no_reticle_no_effect_witness:
  "reticle (run session0 [ModelLoad crate_asset]) = None \<and>
   model (run session0 [ModelLoad crate_asset]) = Some 2 \<and>
   surface_estimate (frame_with [\<lparr>getPose = Some floor_pose\<rparr>]) = Some floor_pose \<and>
   heap (frameCallback (frame_with [\<lparr>getPose = Some floor_pose\<rparr>])
      (run session0 [ModelLoad crate_asset])) = heap (run session0 [ModelLoad crate_asset]) \<and>
   onSelect (run session0 [ModelLoad crate_asset]) = run session0 [ModelLoad crate_asset] \<and>
   objectsPlaced
     (run session0
        [ModelLoad crate_asset, Frame (frame_with [\<lparr>getPose = Some floor_pose\<rparr>]), Select])
     = 0"
proof -
  let ?s = "run session0 [ModelLoad crate_asset]"
  let ?f = "frame_with [\<lparr>getPose = Some floor_pose\<rparr>]"
  have none: "reticle ?s = None" and m: "model ?s = Some 2"
    and c: "objectsPlaced ?s = 0"
    by (simp_all add: session0_def run_def modelLoaded_def init_state_def)
  have e: "surface_estimate ?f = Some floor_pose"
    by (simp add: surface_estimate_def frame_with_def)
  have none': "reticle (frameCallback ?f ?s) = None"
    using none by simp
  have "onSelect (frameCallback ?f ?s) = frameCallback ?f ?s"
    using C10_no_reticle_no_effect [OF none', of ?f] by blast
  then have "objectsPlaced (onSelect (frameCallback ?f ?s)) = 0"
    using c by simp
  moreover have "run session0 [ModelLoad crate_asset, Frame ?f, Select] =
      onSelect (frameCallback ?f ?s)"
    by (simp add: run_def)
  ultimately show ?thesis
    using C10_no_reticle_no_effect [OF none, of ?f] none m e by simp
qed

end
